theory Spec2Isabelle
  imports Complex_Main
begin

section \<open>Python numbers\<close>

text \<open>
  The program compares a score with a threshold (\<^verbatim>\<open>score > threshold\<close>) and a pass
  counter with a product (\<^verbatim>\<open>passed_checks >= num_checks * 0.7\<close>). A Python float is
  an IEEE 754 double: not-a-number, an infinity, or a finite value \<open>m * 2 ^ e\<close> with an
  integer \<open>m\<close>. \<open>Fin m e\<close> is that finite value; a Python \<^verbatim>\<open>int\<close> \<open>n\<close>, which Python
  compares with a float exactly, is \<open>Fin n 0\<close>.
\<close>

datatype pyfloat = NaN | NegInf | Fin int int | PosInf

definition fin_val :: "int \<Rightarrow> int \<Rightarrow> rat" where
  "fin_val m e = (if 0 \<le> e then of_int m * 2 ^ nat e else of_int m / 2 ^ nat (- e))"

text \<open>Python's \<^verbatim>\<open>>\<close>, \<^verbatim>\<open>>=\<close> and \<^verbatim>\<open><=\<close>: every comparison with NaN is false.\<close>

fun float_gt :: "pyfloat \<Rightarrow> pyfloat \<Rightarrow> bool" where
  "float_gt NaN _ = False"
| "float_gt _ NaN = False"
| "float_gt NegInf _ = False"
| "float_gt _ PosInf = False"
| "float_gt PosInf _ = True"
| "float_gt (Fin m e) NegInf = True"
| "float_gt (Fin m e) (Fin m' e') = (fin_val m' e' < fin_val m e)"

fun float_ge :: "pyfloat \<Rightarrow> pyfloat \<Rightarrow> bool" where
  "float_ge NaN _ = False"
| "float_ge _ NaN = False"
| "float_ge PosInf _ = True"
| "float_ge _ NegInf = True"
| "float_ge NegInf _ = False"
| "float_ge (Fin m e) PosInf = False"
| "float_ge (Fin m e) (Fin m' e') = (fin_val m' e' \<le> fin_val m e)"

definition float_le :: "pyfloat \<Rightarrow> pyfloat \<Rightarrow> bool" where
  "float_le a b = float_ge b a"

subsection \<open>Rounding to a double\<close>

text \<open>\<^verbatim>\<open>int.bit_length\<close>: the number of binary digits of a natural number.\<close>

fun bit_length :: "nat \<Rightarrow> nat" where
  "bit_length n = (if n = 0 then 0 else Suc (bit_length (n div 2)))"

declare bit_length.simps [simp del]

text \<open>
  \<open>round_shift k s\<close> is the multiple of \<open>2 ^ s\<close> nearest to \<open>k\<close>, a tie going to the even
  multiple (IEEE 754 round-to-nearest, ties-to-even).
\<close>

definition round_shift :: "nat \<Rightarrow> nat \<Rightarrow> nat" where
  "round_shift k s =
     (let q = k div 2 ^ s; r = k mod 2 ^ s
      in if 2 * r < 2 ^ s \<or> (2 * r = 2 ^ s \<and> even q) then q * 2 ^ s else (q + 1) * 2 ^ s)"

text \<open>
  The digits a double keeps of \<open>k * 2 ^ e\<close>: 53 significant bits, and nothing below
  \<open>2 ^ (-1074)\<close>, the smallest subnormal.
\<close>

definition drop_bits :: "nat \<Rightarrow> int \<Rightarrow> nat" where
  "drop_bits k e = max (bit_length k - 53) (nat (- 1074 - e))"

definition overflows :: "nat \<Rightarrow> int \<Rightarrow> bool" where
  "overflows k e = (0 \<le> e + int (bit_length k) - 1025 \<and> k \<noteq> 0)"

text \<open>The exceptions the program can meet.\<close>

datatype exn = OverflowError | ValueError | FileNotFoundError | UnpicklingError | ParameterError

text \<open>
  Conversion of a Python \<^verbatim>\<open>int\<close> to a float, as \<^verbatim>\<open>int * float\<close> does first: correctly
  rounded, \<^verbatim>\<open>OverflowError\<close> when the result would not be finite.
\<close>

definition float_of_int :: "int \<Rightarrow> exn + pyfloat" where
  "float_of_int n =
     (let k = nat \<bar>n\<bar>; r = round_shift k (drop_bits k 0)
      in if overflows r 0 then Inl OverflowError else Inr (Fin (sgn n * int r) 0))"

text \<open>The product of two floats (IEEE 754 multiplication, round-to-nearest-even).\<close>

definition is_zero :: "pyfloat \<Rightarrow> bool" where
  "is_zero x = (case x of Fin m e \<Rightarrow> m = 0 | _ \<Rightarrow> False)"

definition is_negative :: "pyfloat \<Rightarrow> bool" where
  "is_negative x = (case x of Fin m e \<Rightarrow> m < 0 | NegInf \<Rightarrow> True | _ \<Rightarrow> False)"

definition signed_inf :: "bool \<Rightarrow> pyfloat" where
  "signed_inf negative = (if negative then NegInf else PosInf)"

fun float_mul :: "pyfloat \<Rightarrow> pyfloat \<Rightarrow> pyfloat" where
  "float_mul (Fin m e) (Fin m' e') =
     (let k = nat \<bar>m * m'\<bar>; x = e + e'; s = drop_bits k x; r = round_shift k s
      in if overflows r x then signed_inf (m * m' < 0)
         else Fin (sgn (m * m') * int r) x)"
| "float_mul a b =
     (if a = NaN \<or> b = NaN \<or> is_zero a \<or> is_zero b then NaN
      else signed_inf (is_negative a \<noteq> is_negative b))"

text \<open>
  The literal \<^verbatim>\<open>0.7\<close>: the double nearest to 7/10, which is
  \<open>6305039478318694 / 2 ^ 53\<close>, a little less than 7/10.
\<close>

definition lit_0_7 :: pyfloat where
  "lit_0_7 = Fin 6305039478318694 (- 53)"

text \<open>Python's \<^verbatim>\<open>n * x\<close> for an \<^verbatim>\<open>int\<close> \<open>n\<close> and a float \<open>x\<close>.\<close>

definition int_times_float :: "int \<Rightarrow> pyfloat \<Rightarrow> exn + pyfloat" where
  "int_times_float n x = (case float_of_int n of Inl err \<Rightarrow> Inl err | Inr f \<Rightarrow> Inr (float_mul f x))"

text \<open>
  The closing test of \<^verbatim>\<open>continuous_verification\<close>:
  \<^verbatim>\<open>passed_checks >= num_checks * 0.7\<close>.
\<close>

definition overall_passed :: "int \<Rightarrow> int \<Rightarrow> exn + bool" where
  "overall_passed passed_checks num_checks =
     (case int_times_float num_checks lit_0_7 of
        Inl err \<Rightarrow> Inl err
      | Inr bound \<Rightarrow> Inr (float_ge (Fin passed_checks 0) bound))"


section \<open>Arrays, paths and files\<close>

text \<open>
  A two-dimensional numpy array: its number of columns and its rows, so that an array
  with no rows still has a width. \<^verbatim>\<open>np.vstack\<close> puts arrays of one width on top of
  one another and raises \<^verbatim>\<open>ValueError\<close> otherwise (also for an empty list);
  \<^verbatim>\<open>.T\<close> transposes.
\<close>

datatype ndarray = Array (ncols: nat) (rows: "pyfloat list list")

definition np_vstack :: "ndarray list \<Rightarrow> exn + ndarray" where
  "np_vstack arrays =
     (case arrays of
        [] \<Rightarrow> Inl ValueError
      | a # rest \<Rightarrow>
          if list_all (\<lambda>b. ncols b = ncols a) rest
          then Inr (Array (ncols a) (concat (map rows arrays)))
          else Inl ValueError)"

definition np_transpose :: "ndarray \<Rightarrow> ndarray" where
  "np_transpose a = Array (length (rows a)) (map (\<lambda>j. map (\<lambda>r. r ! j) (rows a)) [0..<ncols a])"

text \<open>\<^verbatim>\<open>range(n)\<close> and \<^verbatim>\<open>str(i)\<close> of a natural number, as the f-strings use it.\<close>

definition py_range :: "int \<Rightarrow> nat list" where
  "py_range n = [0..<nat n]"

fun str_nat :: "nat \<Rightarrow> string" where
  "str_nat n =
     (if n < 10 then [char_of (48 + n)] else str_nat (n div 10) @ [char_of (48 + n mod 10)])"

declare str_nat.simps [simp del]

text \<open>\<^verbatim>\<open>os.path.join\<close> of two components (POSIX).\<close>

definition os_path_join :: "string \<Rightarrow> string \<Rightarrow> string" where
  "os_path_join a b =
     (if b \<noteq> [] \<and> hd b = CHR ''/'' then b
      else if a = [] \<or> last a = CHR ''/'' then a @ b
      else a @ ''/'' @ b)"

text \<open>
  What the program keeps on disk: the recordings it writes as WAV files (sample rate and
  samples) and one pickled dictionary per enrolled student. The fitted scaler and mixture
  model are objects of scikit-learn; the program never looks inside them, so their types
  \<open>'s\<close> and \<open>'g\<close> are left open.
\<close>

record ('s, 'g) model_data =
  gmm :: 'g
  scaler :: 's
  student_id :: string
  registration_date :: string

datatype ('s, 'g) file_content = Wav nat "pyfloat list" | Pickle "('s, 'g) model_data"

text \<open>
  The state the program works on: the files, by path (a flat map from path strings;
  directories are not modelled and a write always succeeds), and the number of recordings
  taken from the microphone so far.
\<close>

record ('s, 'g) world =
  files :: "string \<Rightarrow> ('s, 'g) file_content option"
  taken :: nat

text \<open>
  What comes from outside: the microphone (the samples of the k-th recording, given the
  number of frames asked for) and the clock.
\<close>

record env =
  microphone :: "nat \<Rightarrow> nat \<Rightarrow> pyfloat list"
  clock :: string

text \<open>
  The library calls the program makes, with the arguments it passes. Each either returns
  or raises. librosa: \<^verbatim>\<open>load(path, sr)\<close> on the content of the file, \<^verbatim>\<open>feature.mfcc(y, sr,
  n_mfcc)\<close>, \<^verbatim>\<open>feature.delta(data, order)\<close>. scikit-learn:
  \<^verbatim>\<open>StandardScaler().fit_transform(X)\<close>, \<^verbatim>\<open>scaler.transform(X)\<close>,
  \<^verbatim>\<open>GaussianMixture(n_components, covariance_type, max_iter, random_state).fit(X)\<close>,
  \<^verbatim>\<open>gmm.score(X)\<close>.
\<close>

record ('s, 'g) libs =
  librosa_load :: "('s, 'g) file_content \<Rightarrow> nat \<Rightarrow> exn + (pyfloat list \<times> nat)"
  librosa_mfcc :: "pyfloat list \<Rightarrow> nat \<Rightarrow> nat \<Rightarrow> exn + ndarray"
  librosa_delta :: "ndarray \<Rightarrow> nat \<Rightarrow> exn + ndarray"
  fit_transform :: "ndarray \<Rightarrow> exn + ('s \<times> ndarray)"
  transform :: "'s \<Rightarrow> ndarray \<Rightarrow> exn + ndarray"
  gmm_fit :: "nat \<Rightarrow> string \<Rightarrow> nat \<Rightarrow> nat \<Rightarrow> ndarray \<Rightarrow> exn + 'g"
  gmm_score :: "'g \<Rightarrow> ndarray \<Rightarrow> exn + pyfloat"

definition os_path_exists :: "('s, 'g) world \<Rightarrow> string \<Rightarrow> bool" where
  "os_path_exists w path = (files w path \<noteq> None)"

definition os_remove :: "string \<Rightarrow> ('s, 'g) world \<Rightarrow> ('s, 'g) world" where
  "os_remove path w = w\<lparr>files := (files w)(path := None)\<rparr>"

definition write_file :: "string \<Rightarrow> ('s, 'g) file_content \<Rightarrow> ('s, 'g) world \<Rightarrow> ('s, 'g) world" where
  "write_file path content w = w\<lparr>files := (files w)(path \<mapsto> content)\<rparr>"

text \<open>
  \<^verbatim>\<open>pickle.load\<close> of an opened file: the dictionary that was pickled there, and
  \<^verbatim>\<open>UnpicklingError\<close> for a file that is no pickle.
\<close>

definition pickle_load :: "('s, 'g) world \<Rightarrow> string \<Rightarrow> exn + ('s, 'g) model_data" where
  "pickle_load w path =
     (case files w path of
        None \<Rightarrow> Inl FileNotFoundError
      | Some (Wav sr y) \<Rightarrow> Inl UnpicklingError
      | Some (Pickle d) \<Rightarrow> Inr d)"

section \<open>The class VoiceAuthenticator\<close>

text \<open>
  The methods are modelled as functions of the object, the environment, the libraries and
  the state, returning the value or the exception together with the new state. What they
  print and the \<^verbatim>\<open>input\<close> prompts they wait at are left out, as is the creation of the
  models directory by \<^verbatim>\<open>__init__\<close>. Paths are compared as strings: two different
  strings name two different files.
\<close>

record voice_authenticator =
  models_dir :: string
  sample_rate :: nat
  duration :: nat

definition init :: "string \<Rightarrow> voice_authenticator" where
  "init dir = \<lparr>models_dir = dir, sample_rate = 16000, duration = 5\<rparr>"

text \<open>
  \<^verbatim>\<open>extract_features\<close>: everything happens inside \<^verbatim>\<open>try\<close>, and \<^verbatim>\<open>except Exception\<close>
  turns whatever is raised into \<^verbatim>\<open>None\<close>.
\<close>

definition extract_features ::
  "voice_authenticator \<Rightarrow> ('s, 'g) libs \<Rightarrow> ('s, 'g) world \<Rightarrow> string \<Rightarrow> ndarray option" where
  "extract_features self L w audio_path =
     (case files w audio_path of
        None \<Rightarrow> None
      | Some f \<Rightarrow>
     (case librosa_load L f (sample_rate self) of
        Inl err \<Rightarrow> None
      | Inr (y, sr) \<Rightarrow>
     (case librosa_mfcc L y sr 13 of
        Inl err \<Rightarrow> None
      | Inr mfcc \<Rightarrow>
     (case librosa_delta L mfcc 1 of
        Inl err \<Rightarrow> None
      | Inr mfcc_delta \<Rightarrow>
     (case librosa_delta L mfcc 2 of
        Inl err \<Rightarrow> None
      | Inr mfcc_delta2 \<Rightarrow>
     (case np_vstack [mfcc, mfcc_delta, mfcc_delta2] of
        Inl err \<Rightarrow> None
      | Inr features \<Rightarrow> Some (np_transpose features)))))))"

text \<open>
  \<^verbatim>\<open>record_audio\<close> with the default duration: \<open>duration * sample_rate\<close> frames from the
  microphone, written to \<open>filename\<close>.
\<close>

definition record_audio ::
  "voice_authenticator \<Rightarrow> env \<Rightarrow> string \<Rightarrow> ('s, 'g) world \<Rightarrow> ('s, 'g) world" where
  "record_audio self E filename w =
     (let recording = microphone E (taken w) (duration self * sample_rate self)
      in write_file filename (Wav (sample_rate self) recording) (w\<lparr>taken := Suc (taken w)\<rparr>))"

definition model_path :: "voice_authenticator \<Rightarrow> string \<Rightarrow> string" where
  "model_path self sid = os_path_join (models_dir self) (sid @ ''_voice_model.pkl'')"

text \<open>
  The temporary files: \<^verbatim>\<open>f"temp_registration_{student_id}_{i}.wav"\<close> and
  \<^verbatim>\<open>f"temp_verification_{student_id}.wav"\<close>.
\<close>

definition registration_temp_file :: "string \<Rightarrow> nat \<Rightarrow> string" where
  "registration_temp_file sid i = ''temp_registration_'' @ sid @ ''_'' @ str_nat i @ ''.wav''"

definition verification_temp_file :: "string \<Rightarrow> string" where
  "verification_temp_file sid = ''temp_verification_'' @ sid @ ''.wav''"

text \<open>The loop of \<^verbatim>\<open>register_student\<close> over \<^verbatim>\<open>range(num_samples)\<close>.\<close>

fun record_samples ::
  "voice_authenticator \<Rightarrow> env \<Rightarrow> ('s, 'g) libs \<Rightarrow> string \<Rightarrow> nat list \<Rightarrow> ndarray list \<Rightarrow>
   ('s, 'g) world \<Rightarrow> ndarray list \<times> ('s, 'g) world" where
  "record_samples self E L sid [] all_features w = (all_features, w)"
| "record_samples self E L sid (i # rest) all_features w =
     (let temp_file = registration_temp_file sid i;
          w1 = record_audio self E temp_file w;
          features = extract_features self L w1 temp_file;
          all_features' = (case features of None \<Rightarrow> all_features | Some f \<Rightarrow> all_features @ [f]);
          w2 = (if os_path_exists w1 temp_file then os_remove temp_file w1 else w1)
      in record_samples self E L sid rest all_features' w2)"

text \<open>
  \<^verbatim>\<open>register_student\<close>. Nothing after the loop is inside a \<^verbatim>\<open>try\<close>: what
  \<^verbatim>\<open>np.vstack\<close>, \<^verbatim>\<open>fit_transform\<close> or \<^verbatim>\<open>fit\<close> raises leaves the function as an
  exception (\<open>Inl\<close>).
\<close>

definition register_student ::
  "voice_authenticator \<Rightarrow> env \<Rightarrow> ('s, 'g) libs \<Rightarrow> string \<Rightarrow> int \<Rightarrow> ('s, 'g) world \<Rightarrow>
   (exn + bool) \<times> ('s, 'g) world" where
  "register_student self E L sid num_samples w =
     (case record_samples self E L sid (py_range num_samples) [] w of
        (all_features, w1) \<Rightarrow>
     if length all_features = 0 then (Inr False, w1)
     else
     (case np_vstack all_features of
        Inl err \<Rightarrow> (Inl err, w1)
      | Inr combined_features \<Rightarrow>
     (case fit_transform L combined_features of
        Inl err \<Rightarrow> (Inl err, w1)
      | Inr (sc, normalized_features) \<Rightarrow>
     (case gmm_fit L 16 ''diag'' 200 42 normalized_features of
        Inl err \<Rightarrow> (Inl err, w1)
      | Inr g \<Rightarrow>
          (Inr True,
           write_file (model_path self sid)
             (Pickle \<lparr>gmm = g, scaler = sc, student_id = sid, registration_date = clock E\<rparr>)
             w1)))))"

text \<open>
  \<^verbatim>\<open>verify_student\<close>; \<open>threshold = None\<close> is the call that leaves the threshold to its
  default.
\<close>

definition default_threshold :: pyfloat where
  "default_threshold = Fin (- 50) 0"

definition verify_student ::
  "voice_authenticator \<Rightarrow> env \<Rightarrow> ('s, 'g) libs \<Rightarrow> string \<Rightarrow> pyfloat option \<Rightarrow> ('s, 'g) world \<Rightarrow>
   (exn + bool) \<times> ('s, 'g) world" where
  "verify_student self E L sid threshold w =
     (if \<not> os_path_exists w (model_path self sid) then (Inr False, w)
      else
     (case pickle_load w (model_path self sid) of
        Inl err \<Rightarrow> (Inl err, w)
      | Inr model \<Rightarrow>
     (let temp_file = verification_temp_file sid;
          w1 = record_audio self E temp_file w;
          features = extract_features self L w1 temp_file;
          w2 = (if os_path_exists w1 temp_file then os_remove temp_file w1 else w1)
      in
     (case features of
        None \<Rightarrow> (Inr False, w2)
      | Some f \<Rightarrow>
     (case transform L (scaler model) f of
        Inl err \<Rightarrow> (Inl err, w2)
      | Inr normalized_features \<Rightarrow>
     (case gmm_score L (gmm model) normalized_features of
        Inl err \<Rightarrow> (Inl err, w2)
      | Inr score \<Rightarrow>
          if float_gt score (case threshold of None \<Rightarrow> default_threshold | Some t \<Rightarrow> t)
          then (Inr True, w2)
          else (Inr False, w2)))))))"

text \<open>
  \<^verbatim>\<open>continuous_verification\<close>: the loop over \<^verbatim>\<open>range(num_checks)\<close>, each check a call
  of \<^verbatim>\<open>verify_student\<close> with the default threshold, then the closing test.
  \<^verbatim>\<open>interval\<close> is not used by the code.
\<close>

fun run_checks ::
  "voice_authenticator \<Rightarrow> env \<Rightarrow> ('s, 'g) libs \<Rightarrow> string \<Rightarrow> nat list \<Rightarrow> int \<Rightarrow> ('s, 'g) world \<Rightarrow>
   (exn + int) \<times> ('s, 'g) world" where
  "run_checks self E L sid [] passed_checks w = (Inr passed_checks, w)"
| "run_checks self E L sid (i # rest) passed_checks w =
     (case verify_student self E L sid None w of
        (Inl err, w') \<Rightarrow> (Inl err, w')
      | (Inr result, w') \<Rightarrow>
          run_checks self E L sid rest (if result then passed_checks + 1 else passed_checks) w')"

definition continuous_verification ::
  "voice_authenticator \<Rightarrow> env \<Rightarrow> ('s, 'g) libs \<Rightarrow> string \<Rightarrow> int \<Rightarrow> int \<Rightarrow> ('s, 'g) world \<Rightarrow>
   (exn + bool) \<times> ('s, 'g) world" where
  "continuous_verification self E L sid num_checks interval w =
     (case run_checks self E L sid (py_range num_checks) 0 w of
        (Inl err, w') \<Rightarrow> (Inl err, w')
      | (Inr passed_checks, w') \<Rightarrow>
     (case overall_passed passed_checks num_checks of
        Inl err \<Rightarrow> (Inl err, w')
      | Inr ok \<Rightarrow> (Inr ok, w')))"

text \<open>
  The results of the checks of a session, in order: what \<^verbatim>\<open>verify_student\<close> returned
  at each checkpoint of the loop above.
\<close>

fun check_results ::
  "voice_authenticator \<Rightarrow> env \<Rightarrow> ('s, 'g) libs \<Rightarrow> string \<Rightarrow> nat list \<Rightarrow> ('s, 'g) world \<Rightarrow>
   exn + bool list" where
  "check_results self E L sid [] w = Inr []"
| "check_results self E L sid (i # rest) w =
     (case verify_student self E L sid None w of
        (Inl err, w') \<Rightarrow> Inl err
      | (Inr result, w') \<Rightarrow>
     (case check_results self E L sid rest w' of
        Inl err \<Rightarrow> Inl err
      | Inr results \<Rightarrow> Inr (result # results)))"



section \<open>A small stand-in for the libraries\<close>

text \<open>
  For concrete runs the libraries are replaced by the simplest functions with the same
  interfaces. \<open>stub_libs\<close> reads a WAV file as its samples and refuses anything else;
  its cepstrum of a signal of \<open>T\<close> samples has \<open>n_mfcc\<close> rows and \<open>T\<close> columns and is
  refused for an empty signal; its deltas keep the array; fitting the scaler needs at
  least one row and fitting the mixture at least as many rows as components (as
  scikit-learn demands), both raising \<^verbatim>\<open>ValueError\<close> otherwise; the score is the first
  entry of the array.
\<close>

definition stub_libs :: "(nat, nat) libs" where
  "stub_libs =
     \<lparr>librosa_load = (\<lambda>f sr. case f of Wav r y \<Rightarrow> Inr (y, sr) | Pickle d \<Rightarrow> Inl ValueError),
      librosa_mfcc = (\<lambda>y sr n. if y = [] then Inl ParameterError
                                else Inr (Array (length y) (replicate n y))),
      librosa_delta = (\<lambda>a order. Inr a),
      fit_transform = (\<lambda>X. if rows X = [] then Inl ValueError else Inr (0, X)),
      transform = (\<lambda>sc X. Inr X),
      gmm_fit = (\<lambda>n_components covariance_type max_iter random_state X.
                   if length (rows X) < n_components then Inl ValueError else Inr 0),
      gmm_score = (\<lambda>g X. case rows X of
                              [] \<Rightarrow> Inl ValueError
                            | r # rs \<Rightarrow> (case r of [] \<Rightarrow> Inl ValueError | x # xs \<Rightarrow> Inr x))\<rparr>"

definition stub_self :: voice_authenticator where
  "stub_self = init ''voice_models''"

text \<open>A store with one enrolled student, \<open>s1\<close>, and an empty one.\<close>

definition enrolled_world :: "(nat, nat) world" where
  "enrolled_world =
     \<lparr>files = [''voice_models/s1_voice_model.pkl'' \<mapsto>
                 Pickle \<lparr>gmm = 0, scaler = 0, student_id = ''s1'',
                         registration_date = ''2024-01-01 09:00:00''\<rparr>],
      taken = 0\<rparr>"

definition empty_world :: "(nat, nat) world" where
  "empty_world = \<lparr>files = Map.empty, taken = 0\<rparr>"

text \<open>A microphone whose k-th recording is the signal \<open>r k\<close>.\<close>

definition env_of :: "(nat \<Rightarrow> pyfloat list) \<Rightarrow> env" where
  "env_of r = \<lparr>microphone = (\<lambda>k frames. r k), clock = ''2024-01-01 09:00:00''\<rparr>"

section \<open>A stand-in with the framing and the input checks of the libraries\<close>







section \<open>Rounding: the facts the closing test needs\<close>

text \<open>The literal: a 53-bit significand, within half a unit in the last place of 7/10.\<close>

lemma lit_0_7_nearest:
  "\<bar>7 / 10 - fin_val 6305039478318694 (- 53)\<bar> < 1 / 2 ^ 54 \<and>
   (2::int) ^ 52 \<le> 6305039478318694 \<and> (6305039478318694::int) < 2 ^ 53"
  by (simp add: fin_val_def)

lemma bit_length_less: "n < 2 ^ bit_length n"
proof (induction n rule: bit_length.induct)
  case (1 n)
  show ?case
  proof (cases "n = 0")
    case True
    then show ?thesis by (simp add: bit_length.simps)
  next
    case False
    with 1 have "n div 2 < 2 ^ bit_length (n div 2)" by simp
    then have "n < 2 * 2 ^ bit_length (n div 2)" by linarith
    with False show ?thesis by (subst bit_length.simps) simp
  qed
qed

lemma bit_length_le: "n < 2 ^ k \<Longrightarrow> bit_length n \<le> k"
proof (induction n arbitrary: k rule: bit_length.induct)
  case (1 n)
  show ?case
  proof (cases "n = 0")
    case True
    then show ?thesis by (simp add: bit_length.simps)
  next
    case False
    with 1(2) obtain k' where k: "k = Suc k'" by (cases k) auto
    with 1(2) have "n div 2 < 2 ^ k'" by simp
    with 1(1) False have "bit_length (n div 2) \<le> k'" by simp
    with False k show ?thesis by (subst bit_length.simps) simp
  qed
qed

lemma bit_length_ge: "n \<noteq> 0 \<Longrightarrow> 2 ^ (bit_length n - 1) \<le> n"
proof (induction n rule: bit_length.induct)
  case (1 n)
  show ?case
  proof (cases "n div 2 = 0")
    case True
    with 1(2) have "n = 1" by linarith
    then show ?thesis by (simp add: bit_length.simps)
  next
    case False
    with 1 have ih: "2 ^ (bit_length (n div 2) - 1) \<le> n div 2" by simp
    from False have pos: "bit_length (n div 2) \<noteq> 0" by (subst bit_length.simps) simp
    have "bit_length n = Suc (bit_length (n div 2))" using 1(2) by (subst bit_length.simps) simp
    then have "(2::nat) ^ (bit_length n - 1) = 2 * 2 ^ (bit_length (n div 2) - 1)"
      using pos by (cases "bit_length (n div 2)") auto
    with ih show ?thesis by linarith
  qed
qed

lemma round_shift_zero: "round_shift k 0 = k"
  by (simp add: round_shift_def)

lemma round_shift_cases:
  "round_shift k s = (k div 2 ^ s) * 2 ^ s \<or> round_shift k s = (k div 2 ^ s + 1) * 2 ^ s"
  by (simp add: round_shift_def Let_def)

lemma round_shift_le:
  assumes "k \<le> j" and "2 ^ s dvd j"
  shows "round_shift k s \<le> j"
proof -
  define q where "q = k div 2 ^ s"
  from assms(2) obtain c where j: "j = c * 2 ^ s" by (auto simp: dvd_def mult.commute)
  have k: "k = q * 2 ^ s + k mod 2 ^ s" unfolding q_def by (rule div_mult_mod_eq [symmetric])
  show ?thesis
  proof (cases "k mod 2 ^ s = 0")
    case True
    then have "round_shift k s = q * 2 ^ s" by (simp add: round_shift_def q_def)
    with True k assms(1) show ?thesis by simp
  next
    case False
    have "q < c"
    proof (rule ccontr)
      assume "\<not> q < c"
      then have "c \<le> q" by simp
      then have "c * 2 ^ s \<le> q * 2 ^ s" by (rule mult_le_mono1)
      with k False have "c * 2 ^ s < k" by linarith
      with assms(1) j show False by simp
    qed
    then have "q + 1 \<le> c" by simp
    then have up: "(q + 1) * 2 ^ s \<le> j" unfolding j by (rule mult_le_mono1)
    have "q \<le> q + 1" by simp
    then have "q * 2 ^ s \<le> (q + 1) * 2 ^ s" by (rule mult_le_mono1)
    then have down: "q * 2 ^ s \<le> j" using up by (rule order_trans)
    from round_shift_cases [of k s] up down show ?thesis unfolding q_def by auto
  qed
qed

lemma round_shift_ge:
  assumes "j \<le> k" and "2 ^ s dvd j"
  shows "j \<le> round_shift k s"
proof -
  from assms(2) obtain c where j: "j = c * 2 ^ s" by (auto simp: dvd_def mult.commute)
  have "c \<le> k div 2 ^ s" using assms(1) j
    by (simp add: less_eq_div_iff_mult_less_eq)
  then have "c * 2 ^ s \<le> (k div 2 ^ s) * 2 ^ s" by simp
  moreover have "(k div 2 ^ s) * 2 ^ s \<le> round_shift k s"
    by (simp add: round_shift_def Let_def)
  ultimately show ?thesis unfolding j by (rule order_trans)
qed


lemma seven_tenths:
  assumes "0 < n" and "n < 2 ^ 48" and "0 \<le> p"
  shows "overall_passed p n = Inr (7 * n \<le> 10 * p)"
proof -
  define N where "N = nat n"
  define P where "P = nat p"
  define K where "K = N * 6305039478318694"
  define s where "s = bit_length K - 53"
  define R where "R = round_shift K s"
  have n: "n = int N" and p: "p = int P" using assms by (simp_all add: N_def P_def)
  have N: "0 < N" "N < 2 ^ 48" using assms by (simp_all add: N_def nat_less_iff)
  have bN: "bit_length N \<le> 48" using N(2) by (rule bit_length_le)
  have conv: "float_of_int n = Inr (Fin n 0)"
    using bN N(1) by (simp add: float_of_int_def n drop_bits_def round_shift_zero overflows_def Let_def)
  have K101: "K < 2 ^ 101" using N(2) unfolding K_def by simp
  then have bK: "bit_length K \<le> 101" by (rule bit_length_le)
  then have s48: "s \<le> 48" by (simp add: s_def)
  have drop: "drop_bits K (- 53) = s" by (simp add: drop_bits_def s_def)
  have "2 ^ s dvd (2::nat) ^ 101" using s48 by (intro le_imp_power_dvd) simp
  with K101 have "R \<le> 2 ^ 101" unfolding R_def by (intro round_shift_le) simp_all
  then have "R < 2 ^ 102" by simp
  then have bR: "bit_length R \<le> 102" by (rule bit_length_le)
  have noov: "\<not> overflows R (- 53)" using bR by (simp add: overflows_def)
  have Kpos: "0 < K" using N(1) by (simp add: K_def)
  have absK: "\<bar>int N * 6305039478318694\<bar> = int K" by (simp add: K_def abs_mult)
  have sgnK: "sgn (int N * 6305039478318694) = 1" using N(1) by (simp add: sgn_mult)
  have posK: "\<not> int N * 6305039478318694 < 0" by simp
  have mul: "float_mul (Fin n 0) lit_0_7 = Fin (int R) (- 53)"
    unfolding lit_0_7_def n float_mul.simps absK sgnK nat_int Let_def
    using noov by (simp add: drop R_def)
  have dvd53: "2 ^ s dvd P * 2 ^ 53" using s48 by (intro dvd_mult le_imp_power_dvd) simp
  have cmp: "(R \<le> P * 2 ^ 53) = (7 * N \<le> 10 * P)"
  proof
    assume le: "7 * N \<le> 10 * P"
    then have "K \<le> P * 2 ^ 53" unfolding K_def by simp
    then show "R \<le> P * 2 ^ 53" unfolding R_def using dvd53 by (rule round_shift_le)
  next
    assume le: "R \<le> P * 2 ^ 53"
    show "7 * N \<le> 10 * P"
    proof (rule ccontr)
      assume "\<not> 7 * N \<le> 10 * P"
      then have lt: "10 * P + 1 \<le> 7 * N" by simp
      have "(2::nat) ^ s \<le> 2 ^ 48" using s48 by (intro power_increasing) simp_all
      then have "P * 2 ^ 53 + 2 ^ s \<le> K" using lt N(2) unfolding K_def by simp
      moreover have "2 ^ s dvd P * 2 ^ 53 + 2 ^ s" using dvd53 by simp
      ultimately have "P * 2 ^ 53 + 2 ^ s \<le> R" unfolding R_def by (rule round_shift_ge)
      moreover have "0 < (2::nat) ^ s" by simp
      ultimately show False using le by linarith
    qed
  qed
  have "float_ge (Fin p 0) (Fin (int R) (- 53)) = (R \<le> P * 2 ^ 53)"
    by (simp add: fin_val_def p field_simps flip: of_nat_le_iff [where ?'a = rat])
  moreover have "(7 * int N \<le> 10 * int P) = (7 * N \<le> 10 * P)" by presburger
  ultimately show ?thesis using cmp conv mul
    by (simp add: overall_passed_def int_times_float_def n p)
qed

section \<open>Files: what a recording touches\<close>

lemma model_path_last: "model_path self sid \<noteq> [] \<and> last (model_path self sid) = CHR ''l''"
  by (simp add: model_path_def os_path_join_def)

lemma temp_verification_neq: "verification_temp_file sid \<noteq> model_path self sid'"
proof
  assume "verification_temp_file sid = model_path self sid'"
  then have "last (verification_temp_file sid) = last (model_path self sid')" by simp
  then show False by (simp add: model_path_last verification_temp_file_def)
qed

lemma temp_registration_neq: "registration_temp_file sid i \<noteq> model_path self sid'"
proof
  assume "registration_temp_file sid i = model_path self sid'"
  then have "last (registration_temp_file sid i) = last (model_path self sid')" by simp
  then show False by (simp add: model_path_last registration_temp_file_def)
qed

lemma files_record_audio:
  "files (record_audio self E p w) q =
     (if q = p then Some (Wav (sample_rate self) (microphone E (taken w) (duration self * sample_rate self)))
      else files w q)"
  by (simp add: record_audio_def write_file_def Let_def)

lemma taken_record_audio: "taken (record_audio self E p w) = Suc (taken w)"
  by (simp add: record_audio_def write_file_def Let_def)

lemma exists_record_audio: "os_path_exists (record_audio self E p w) p"
  by (simp add: os_path_exists_def files_record_audio)

lemma files_os_remove: "files (os_remove p w) q = (if q = p then None else files w q)"
  by (simp add: os_remove_def)

lemma taken_os_remove: "taken (os_remove p w) = taken w"
  by (simp add: os_remove_def)

lemma files_recorded_removed:
  "files (os_remove p (record_audio self E p w)) q = (if q = p then None else files w q)"
  by (simp add: files_os_remove files_record_audio)

lemma verify_student_files:
  "q \<noteq> verification_temp_file sid \<Longrightarrow>
   files (snd (verify_student self E L sid threshold w)) q = files w q"
  by (simp add: verify_student_def Let_def exists_record_audio files_recorded_removed
      split: sum.split option.split)

lemma verify_student_cases:
  "verify_student self E L sid threshold w =
     (case files w (model_path self sid) of
        None \<Rightarrow> (Inr False, w)
      | Some (Wav r y) \<Rightarrow> (Inl UnpicklingError, w)
      | Some (Pickle model) \<Rightarrow>
          (let temp_file = verification_temp_file sid;
               w1 = record_audio self E temp_file w;
               w2 = os_remove temp_file w1
           in case extract_features self L w1 temp_file of
                None \<Rightarrow> (Inr False, w2)
              | Some f \<Rightarrow>
             (case transform L (scaler model) f of
                Inl err \<Rightarrow> (Inl err, w2)
              | Inr normalized_features \<Rightarrow>
             (case gmm_score L (gmm model) normalized_features of
                Inl err \<Rightarrow> (Inl err, w2)
              | Inr score \<Rightarrow>
                  (Inr (float_gt score (case threshold of None \<Rightarrow> default_threshold | Some t \<Rightarrow> t)), w2)))))"
  by (simp add: verify_student_def Let_def os_path_exists_def files_record_audio pickle_load_def
      split: sum.split option.split file_content.split)

lemma float_gt_le_trans: "float_gt s t2 \<Longrightarrow> float_le t1 t2 \<Longrightarrow> float_gt s t1"
  by (cases s; cases t2; cases t1) (auto simp: float_le_def)

lemma verify_student_keeps_models:
  "files (snd (verify_student self E L sid threshold w)) (model_path self sid') =
   files w (model_path self sid')"
  by (rule verify_student_files) (simp add: temp_verification_neq [symmetric])

section \<open>Runs with the stand-in libraries\<close>

lemma files_after_check:
  "files (os_remove (verification_temp_file sid) (record_audio self E (verification_temp_file sid) w))
     (model_path self sid') = files w (model_path self sid')"
  by (simp add: files_recorded_removed temp_verification_neq [symmetric])

lemma taken_after_recording:
  "taken (os_remove p (record_audio self E p w)) = Suc (taken w)"
  by (simp add: taken_os_remove taken_record_audio)

lemma stub_model_path: "model_path stub_self ''s1'' = ''voice_models/s1_voice_model.pkl''"
  by (simp add: model_path_def stub_self_def init_def os_path_join_def)

lemma enrolled_world_s1:
  "files enrolled_world (model_path stub_self ''s1'') =
     Some (Pickle \<lparr>gmm = 0, scaler = 0, student_id = ''s1'',
                    registration_date = ''2024-01-01 09:00:00''\<rparr>)"
  by (simp add: stub_model_path enrolled_world_def)

lemma empty_world_s1: "files empty_world (model_path stub_self ''s1'') = None"
  by (simp add: empty_world_def)

lemma transpose_replicate:
  "map (\<lambda>j. replicate n (y ! j)) [0..<length y] = map (replicate n) y"
  by (rule nth_equalityI) simp_all

lemma upt_add_Suc: "[a..<Suc (a + n)] = a # [Suc a..<Suc (a + n)]"
  by (simp add: upt_conv_Cons del: upt_Suc)

lemma stub_extract:
  "extract_features self stub_libs (record_audio self (env_of r) p w) p =
     (if r (taken w) = [] then None else Some (Array 39 (map (replicate 39) (r (taken w)))))"
proof -
  have "replicate 13 y @ replicate 13 y @ replicate 13 y = replicate 39 y" for y :: "pyfloat list"
    by (simp flip: replicate_add)
  then show ?thesis
    by (simp add: extract_features_def files_record_audio stub_libs_def env_of_def np_vstack_def
        np_transpose_def transpose_replicate)
qed

lemma stub_score:
  "y \<noteq> [] \<Longrightarrow> gmm_score stub_libs g (Array 39 (map (replicate 39) y)) = Inr (hd y)"
  by (cases y) (simp_all add: stub_libs_def eval_nat_numeral)

lemma stub_verify:
  assumes "files w (model_path self sid) = Some (Pickle model)"
  shows "verify_student self (env_of r) stub_libs sid threshold w =
     (Inr (r (taken w) \<noteq> [] \<and>
           float_gt (hd (r (taken w)))
             (case threshold of None \<Rightarrow> default_threshold | Some t \<Rightarrow> t)),
      os_remove (verification_temp_file sid)
        (record_audio self (env_of r) (verification_temp_file sid) w))"
proof (cases "r (taken w) = []")
  case True
  with assms show ?thesis by (simp add: verify_student_cases stub_extract Let_def)
next
  case False
  have "transform stub_libs sc X = Inr X" for sc X by (simp add: stub_libs_def)
  with assms False show ?thesis
    by (simp add: verify_student_cases stub_extract Let_def stub_score)
qed

lemma stub_check_results:
  assumes "files w (model_path self sid) = Some (Pickle model)"
  shows "check_results self (env_of r) stub_libs sid checks w =
     Inr (map (\<lambda>k. r k \<noteq> [] \<and> float_gt (hd (r k)) default_threshold)
            [taken w..<taken w + length checks])"
  using assms
proof (induction checks arbitrary: w)
  case Nil
  then show ?case by simp
next
  case (Cons i rest)
  let ?w' = "os_remove (verification_temp_file sid)
        (record_audio self (env_of r) (verification_temp_file sid) w)"
  have "files ?w' (model_path self sid) = Some (Pickle model)"
    using Cons.prems by (simp add: files_after_check)
  from Cons.IH [OF this] show ?case
    by (simp add: stub_verify [OF Cons.prems] taken_after_recording upt_add_Suc del: upt_Suc)
qed

lemma range_3: "py_range 3 = [0, 1, 2]"
  by (simp add: py_range_def upt_conv_Cons eval_nat_numeral)

lemma stub_session:
  "check_results stub_self (env_of r) stub_libs ''s1'' (py_range 3) enrolled_world =
     Inr (map (\<lambda>k. r k \<noteq> [] \<and> float_gt (hd (r k)) default_threshold) [0, 1, 2])"
proof -
  have "[taken enrolled_world..<taken enrolled_world + length (py_range 3)] = [0, 1, 2]"
    by (simp add: range_3 enrolled_world_def upt_conv_Cons eval_nat_numeral del: upt_Suc)
  then show ?thesis
    by (simp only: stub_check_results [OF enrolled_world_s1])
qed

lemma passes: "float_gt (Fin 0 0) default_threshold"
  by (simp add: default_threshold_def fin_val_def)

lemma fails: "\<not> float_gt (Fin (- 100) 0) default_threshold"
  by (simp add: default_threshold_def fin_val_def)


section \<open>The session loop\<close>

lemma run_checks_results:
  "check_results self E L sid checks w = Inr rs \<Longrightarrow>
   fst (run_checks self E L sid checks p w) = Inr (p + int (count_list rs True))"
proof (induction checks arbitrary: p w rs)
  case Nil
  then show ?case by simp
next
  case (Cons i rest)
  obtain res w' where v: "verify_student self E L sid None w = (res, w')"
    by (cases "verify_student self E L sid None w")
  with Cons.prems obtain b rs' where res: "res = Inr b"
    and rest: "check_results self E L sid rest w' = Inr rs'" and rs: "rs = b # rs'"
    by (auto split: sum.splits)
  from Cons.IH [OF rest] show ?case by (simp add: v res rs)
qed

lemma check_results_length:
  "check_results self E L sid checks w = Inr rs \<Longrightarrow> length rs = length checks"
proof (induction checks arbitrary: w rs)
  case Nil
  then show ?case by simp
next
  case (Cons i rest)
  then show ?case by (auto split: sum.splits prod.splits)
qed

lemma fst_continuous_verification:
  "fst (continuous_verification self E L sid N interval w) =
     (case fst (run_checks self E L sid (py_range N) 0 w) of
        Inl err \<Rightarrow> Inl err
      | Inr passed_checks \<Rightarrow> overall_passed passed_checks N)"
  by (simp add: continuous_verification_def split: prod.split sum.split)

lemma ratio_iff:
  assumes "0 < N"
  shows "(7 * N \<le> 10 * int c) = (7 / 10 \<le> (of_nat c :: rat) / of_int N)"
proof -
  have "(7 / 10 \<le> (of_nat c :: rat) / of_int N) = ((7::rat) * of_int N \<le> 10 * of_nat c)"
    using assms by (simp add: field_simps)
  also have "\<dots> = ((of_int (7 * N) :: rat) \<le> of_int (10 * int c))" by simp
  also have "\<dots> = (7 * N \<le> 10 * int c)" by (simp only: of_int_le_iff)
  finally show ?thesis by simp
qed

section \<open>Enrollment\<close>

lemma record_samples_files:
  "files (snd (record_samples self E L sid idxs acc w)) (model_path self sid') =
   files w (model_path self sid')"
proof (induction idxs arbitrary: acc w)
  case Nil
  then show ?case by simp
next
  case (Cons i rest)
  show ?case
    by (simp add: Let_def exists_record_audio Cons.IH files_recorded_removed
        temp_registration_neq [symmetric])
qed

lemma register_student_cases:
  "register_student self E L sid num_samples w =
     (let all_features = fst (record_samples self E L sid (py_range num_samples) [] w);
          w1 = snd (record_samples self E L sid (py_range num_samples) [] w)
      in if all_features = [] then (Inr False, w1)
         else
        (case np_vstack all_features of
           Inl err \<Rightarrow> (Inl err, w1)
         | Inr combined_features \<Rightarrow>
        (case fit_transform L combined_features of
           Inl err \<Rightarrow> (Inl err, w1)
         | Inr (sc, normalized_features) \<Rightarrow>
        (case gmm_fit L 16 ''diag'' 200 42 normalized_features of
           Inl err \<Rightarrow> (Inl err, w1)
         | Inr g \<Rightarrow>
             (Inr True,
              write_file (model_path self sid)
                (Pickle \<lparr>gmm = g, scaler = sc, student_id = sid, registration_date = clock E\<rparr>)
                w1)))))"
  by (cases "record_samples self E L sid (py_range num_samples) [] w")
     (simp add: register_student_def Let_def)




text \<open>
  Nothing catches what the training raises: an exception of \<^verbatim>\<open>fit_transform\<close> or
  \<^verbatim>\<open>fit\<close> leaves \<^verbatim>\<open>register_student\<close>, which then neither returns \<^verbatim>\<open>False\<close> nor
  writes a model file.
\<close>

lemma training_exception_propagates:
  assumes "record_samples self E L sid (py_range num_samples) [] w = (all_features, w1)"
    and "np_vstack all_features = Inr combined_features"
    and "fit_transform L combined_features = Inl err \<or>
         (\<exists>sc normalized_features.
            fit_transform L combined_features = Inr (sc, normalized_features) \<and>
            gmm_fit L 16 ''diag'' 200 42 normalized_features = Inl err)"
  shows "register_student self E L sid num_samples w = (Inl err, w1) \<and>
         fst (register_student self E L sid num_samples w) \<noteq> Inr False \<and>
         files w1 (model_path self sid') = files w (model_path self sid')"
proof -
  have ne: "all_features \<noteq> []" using assms(2) by (auto simp: np_vstack_def)
  have reg: "register_student self E L sid num_samples w = (Inl err, w1)"
    using assms ne by (auto simp: register_student_cases)
  have "files w1 (model_path self sid') = files w (model_path self sid')"
    using record_samples_files [of self E L sid "py_range num_samples" "[]" w sid'] assms(1)
    by simp
  with reg show ?thesis by simp
qed

section \<open>Feature extraction: what the program itself decides\<close>

text \<open>
  Which signals librosa accepts is decided inside librosa. The program adds two things:
  whatever is raised becomes \<^verbatim>\<open>None\<close>, and the three arrays are stacked and
  transposed, so that with a cepstrum of \<open>n_mfcc = 13\<close> rows and deltas of the same
  height the features have 39 columns.
\<close>

lemma extract_features_unreadable:
  "files w p = None \<or> (\<exists>f err. files w p = Some f \<and> librosa_load L f (sample_rate self) = Inl err)
   \<Longrightarrow> extract_features self L w p = None"
  by (auto simp: extract_features_def)

lemma extract_features_width:
  assumes "extract_features self L w p = Some features"
    and mfcc: "\<And>y sr n m. librosa_mfcc L y sr n = Inr m \<Longrightarrow> length (rows m) = n"
    and delta: "\<And>a order b. librosa_delta L a order = Inr b \<Longrightarrow> length (rows b) = length (rows a)"
  shows "ncols features = 39"
proof -
  from assms(1) obtain f y sr m d1 d2 stacked where
    m: "librosa_mfcc L y sr 13 = Inr m" and d1: "librosa_delta L m 1 = Inr d1"
    and d2: "librosa_delta L m 2 = Inr d2" and st: "np_vstack [m, d1, d2] = Inr stacked"
    and features: "features = np_transpose stacked"
    by (auto simp: extract_features_def split: option.splits sum.splits)
  from st have "rows stacked = rows m @ rows d1 @ rows d2"
    by (auto simp: np_vstack_def split: if_splits)
  with mfcc [OF m] delta [OF d1] delta [OF d2] features show ?thesis
    by (simp add: np_transpose_def)
qed

section \<open>Runs with the framed stand-in\<close>





















section \<open>The claims\<close>

text \<open>
  C1. A session of \<open>N\<close> checkpoints (\<open>0 < N < 2 ^ 48\<close>; the bound keeps the floating-point
  product \<^verbatim>\<open>num_checks * 0.7\<close> on the right side of every integer) in which no check
  raises and whose checks return \<open>rs\<close> is passed exactly when the share of \<^verbatim>\<open>True\<close> among
  the \<open>N\<close> results is at least 7/10. In particular the results pass, pass, fail give a
  failed session (2/3 is below 0.7), three passes a passed one, and pass, fail, fail a
  failed one.
\<close>

theorem session_decision:
  assumes "0 < N" and "N < 2 ^ 48"
    and "check_results self E L sid (py_range N) w = Inr rs"
  shows "fst (continuous_verification self E L sid N interval w) =
           Inr (7 / 10 \<le> (of_nat (count_list rs True) :: rat) / of_int N) \<and>
         (rs = [True, True, False] \<longrightarrow>
            fst (continuous_verification self E L sid N interval w) = Inr False) \<and>
         (rs = [True, True, True] \<longrightarrow>
            fst (continuous_verification self E L sid N interval w) = Inr True) \<and>
         (rs = [True, False, False] \<longrightarrow>
            fst (continuous_verification self E L sid N interval w) = Inr False)"
proof -
  let ?c = "count_list rs True"
  have run: "fst (run_checks self E L sid (py_range N) 0 w) = Inr (int ?c)"
    using run_checks_results [OF assms(3), of 0] by simp
  have "overall_passed (int ?c) N = Inr (7 * N \<le> 10 * int ?c)"
    using assms(1,2) by (intro seven_tenths) simp_all
  then have main: "fst (continuous_verification self E L sid N interval w) =
      Inr (7 / 10 \<le> (of_nat ?c :: rat) / of_int N)"
    by (simp add: fst_continuous_verification run ratio_iff [OF assms(1)])
  have len: "length rs = nat N"
    using check_results_length [OF assms(3)] by (simp add: py_range_def)
  have N3: "N = 3" if "length rs = 3"
    using that len assms(1) by simp
  show ?thesis
  proof (intro conjI impI)
    show "fst (continuous_verification self E L sid N interval w) =
      Inr (7 / 10 \<le> (of_nat ?c :: rat) / of_int N)" by (rule main)
  next
    assume "rs = [True, True, False]"
    with main N3 show "fst (continuous_verification self E L sid N interval w) = Inr False"
      by simp
  next
    assume "rs = [True, True, True]"
    with main N3 show "fst (continuous_verification self E L sid N interval w) = Inr True"
      by simp
  next
    assume "rs = [True, False, False]"
    with main N3 show "fst (continuous_verification self E L sid N interval w) = Inr False"
      by simp
  qed
qed

theorem session_decision_witness:
  "(0::int) < 3 \<and> (3::int) < 2 ^ 48 \<and>
   check_results stub_self (env_of (\<lambda>k. [Fin (if k < 2 then 0 else - 100) 0])) stub_libs ''s1''
     (py_range 3) enrolled_world = Inr [True, True, False] \<and>
   fst (continuous_verification stub_self (env_of (\<lambda>k. [Fin (if k < 2 then 0 else - 100) 0]))
     stub_libs ''s1'' 3 300 enrolled_world) = Inr False \<and>
   check_results stub_self (env_of (\<lambda>k. [Fin 0 0])) stub_libs ''s1''
     (py_range 3) enrolled_world = Inr [True, True, True] \<and>
   fst (continuous_verification stub_self (env_of (\<lambda>k. [Fin 0 0]))
     stub_libs ''s1'' 3 300 enrolled_world) = Inr True \<and>
   check_results stub_self (env_of (\<lambda>k. [Fin (if k < 1 then 0 else - 100) 0])) stub_libs ''s1''
     (py_range 3) enrolled_world = Inr [True, False, False] \<and>
   fst (continuous_verification stub_self (env_of (\<lambda>k. [Fin (if k < 1 then 0 else - 100) 0]))
     stub_libs ''s1'' 3 300 enrolled_world) = Inr False"
proof -
  have n: "(0::int) < 3" "(3::int) < 2 ^ 48" by simp_all
  have a: "check_results stub_self (env_of (\<lambda>k. [Fin (if k < 2 then 0 else - 100) 0])) stub_libs
      ''s1'' (py_range 3) enrolled_world = Inr [True, True, False]"
    by (simp add: stub_session passes fails)
  have b: "check_results stub_self (env_of (\<lambda>k. [Fin 0 0])) stub_libs
      ''s1'' (py_range 3) enrolled_world = Inr [True, True, True]"
    by (simp add: stub_session passes)
  have c: "check_results stub_self (env_of (\<lambda>k. [Fin (if k < 1 then 0 else - 100) 0])) stub_libs
      ''s1'' (py_range 3) enrolled_world = Inr [True, False, False]"
    by (simp add: stub_session passes fails)
  from session_decision [OF n a, of 300] session_decision [OF n b, of 300]
    session_decision [OF n c, of 300] a b c
  show ?thesis by simp
qed

text \<open>
  C2. For an enrolled student (the model file holds a pickled profile),
  \<^verbatim>\<open>verify_student\<close> returns \<^verbatim>\<open>True\<close> exactly when a score was computed from the
  recording and that score is strictly greater than the threshold; a call without a
  threshold is the call with threshold -50.
\<close>

theorem verify_student_decision:
  assumes "files w (model_path self sid) = Some (Pickle model)"
  shows "(fst (verify_student self E L sid threshold w) = Inr True) =
           (\<exists>f normalized_features score.
              extract_features self L (record_audio self E (verification_temp_file sid) w)
                (verification_temp_file sid) = Some f \<and>
              transform L (scaler model) f = Inr normalized_features \<and>
              gmm_score L (gmm model) normalized_features = Inr score \<and>
              float_gt score (case threshold of None \<Rightarrow> Fin (- 50) 0 | Some t \<Rightarrow> t)) \<and>
         verify_student self E L sid None w = verify_student self E L sid (Some (Fin (- 50) 0)) w"
  using assms
  by (auto simp: verify_student_cases Let_def default_threshold_def
      split: option.splits sum.splits)

theorem verify_student_decision_witness:
  "files enrolled_world (model_path stub_self ''s1'') =
     Some (Pickle \<lparr>gmm = 0, scaler = 0, student_id = ''s1'',
                    registration_date = ''2024-01-01 09:00:00''\<rparr>) \<and>
   fst (verify_student stub_self (env_of (\<lambda>k. [Fin 0 0])) stub_libs ''s1'' None enrolled_world)
     = Inr True \<and>
   fst (verify_student stub_self (env_of (\<lambda>k. [Fin 0 0])) stub_libs ''s1'' (Some (Fin 0 0))
     enrolled_world) = Inr False \<and>
   verify_student stub_self (env_of (\<lambda>k. [Fin 0 0])) stub_libs ''s1'' None enrolled_world =
   verify_student stub_self (env_of (\<lambda>k. [Fin 0 0])) stub_libs ''s1'' (Some (Fin (- 50) 0))
     enrolled_world"
proof -
  have "fst (verify_student stub_self (env_of (\<lambda>k. [Fin 0 0])) stub_libs ''s1'' None
      enrolled_world) = Inr True"
    by (simp add: stub_verify [OF enrolled_world_s1] passes)
  moreover have "fst (verify_student stub_self (env_of (\<lambda>k. [Fin 0 0])) stub_libs ''s1''
      (Some (Fin 0 0)) enrolled_world) = Inr False"
    by (simp add: stub_verify [OF enrolled_world_s1] fin_val_def)
  ultimately show ?thesis
    using verify_student_decision [OF enrolled_world_s1, of "env_of (\<lambda>k. [Fin 0 0])" stub_libs None]
      enrolled_world_s1
    by simp
qed




text \<open>
  C7. For a fixed recording and store, hence a fixed score, and thresholds \<open>t1 \<le> t2\<close>:
  if verification with threshold \<open>t2\<close> returns \<^verbatim>\<open>True\<close>, so does verification with
  threshold \<open>t1\<close>. Raising the threshold can only turn a pass into a failure.
\<close>

theorem threshold_monotone:
  assumes "float_le t1 t2"
    and "fst (verify_student self E L sid (Some t2) w) = Inr True"
  shows "fst (verify_student self E L sid (Some t1) w) = Inr True"
  using assms(2) float_gt_le_trans [OF _ assms(1)]
  by (auto simp: verify_student_cases Let_def split: option.splits file_content.splits sum.splits)

theorem threshold_monotone_witness:
  "float_le (Fin (- 60) 0) (Fin (- 50) 0) \<and>
   fst (verify_student stub_self (env_of (\<lambda>k. [Fin (- 55) 0])) stub_libs ''s1''
     (Some (Fin (- 50) 0)) enrolled_world) = Inr False \<and>
   fst (verify_student stub_self (env_of (\<lambda>k. [Fin 0 0])) stub_libs ''s1''
     (Some (Fin (- 50) 0)) enrolled_world) = Inr True \<and>
   fst (verify_student stub_self (env_of (\<lambda>k. [Fin 0 0])) stub_libs ''s1''
     (Some (Fin (- 60) 0)) enrolled_world) = Inr True"
proof -
  have le: "float_le (Fin (- 60) 0) (Fin (- 50) 0)" by (simp add: float_le_def fin_val_def)
  have at2: "fst (verify_student stub_self (env_of (\<lambda>k. [Fin 0 0])) stub_libs ''s1''
      (Some (Fin (- 50) 0)) enrolled_world) = Inr True"
    by (simp add: stub_verify [OF enrolled_world_s1] fin_val_def)
  have below: "fst (verify_student stub_self (env_of (\<lambda>k. [Fin (- 55) 0])) stub_libs ''s1''
      (Some (Fin (- 50) 0)) enrolled_world) = Inr False"
    by (simp add: stub_verify [OF enrolled_world_s1] fin_val_def)
  from le at2 below threshold_monotone [OF le at2] show ?thesis by simp
qed

text \<open>
  C9. A call of \<^verbatim>\<open>verify_student\<close> leaves every model file as it was: the file of the
  student verified and that of any other student \<open>sid'\<close>, with the scaler, the mixture
  model, the student id and the registration date it holds. The call writes and removes
  its temporary WAV file only.
\<close>

theorem verify_student_reads_only:
  "files (snd (verify_student self E L sid threshold w)) (model_path self sid') =
   files w (model_path self sid')"
  by (rule verify_student_keeps_models)

text \<open>
  C10. \<^verbatim>\<open>verify_student\<close> returns the same \<^verbatim>\<open>False\<close> when there is no model file,
  when the extraction on the recording fails, and when the score is not above the
  threshold; and a check that returned \<^verbatim>\<open>False\<close> leaves the pass counter of the
  session as it was, whatever the cause.
\<close>

theorem verify_student_failures_alike:
  "(files w (model_path self sid) = None \<longrightarrow>
      fst (verify_student self E L sid threshold w) = Inr False) \<and>
   (files w (model_path self sid) = Some (Pickle model) \<and>
    extract_features self L (record_audio self E (verification_temp_file sid) w)
      (verification_temp_file sid) = None \<longrightarrow>
      fst (verify_student self E L sid threshold w) = Inr False) \<and>
   (files w (model_path self sid) = Some (Pickle model) \<and>
    extract_features self L (record_audio self E (verification_temp_file sid) w)
      (verification_temp_file sid) = Some f \<and>
    transform L (scaler model) f = Inr normalized_features \<and>
    gmm_score L (gmm model) normalized_features = Inr score \<and>
    \<not> float_gt score (case threshold of None \<Rightarrow> default_threshold | Some t \<Rightarrow> t) \<longrightarrow>
      fst (verify_student self E L sid threshold w) = Inr False) \<and>
   (fst (verify_student self E L sid None w) = Inr False \<longrightarrow>
      run_checks self E L sid (i # rest) passed_checks w =
      run_checks self E L sid rest passed_checks (snd (verify_student self E L sid None w)))"
  by (auto simp: verify_student_cases Let_def split: option.splits sum.splits prod.splits)

theorem verify_student_failures_alike_witness:
  "files empty_world (model_path stub_self ''s1'') = None \<and>
   fst (verify_student stub_self (env_of (\<lambda>k. [Fin 0 0])) stub_libs ''s1'' None empty_world)
     = Inr False \<and>
   extract_features stub_self stub_libs
     (record_audio stub_self (env_of (\<lambda>k. [])) (verification_temp_file ''s1'') enrolled_world)
     (verification_temp_file ''s1'') = None \<and>
   fst (verify_student stub_self (env_of (\<lambda>k. [])) stub_libs ''s1'' None enrolled_world)
     = Inr False \<and>
   gmm_score stub_libs 0 (Array 39 [replicate 39 (Fin (- 100) 0)]) = Inr (Fin (- 100) 0) \<and>
   \<not> float_gt (Fin (- 100) 0) default_threshold \<and>
   fst (verify_student stub_self (env_of (\<lambda>k. [Fin (- 100) 0])) stub_libs ''s1'' None
     enrolled_world) = Inr False \<and>
   run_checks stub_self (env_of (\<lambda>k. [])) stub_libs ''s1'' [0] 0 enrolled_world =
   run_checks stub_self (env_of (\<lambda>k. [])) stub_libs ''s1'' [] 0
     (snd (verify_student stub_self (env_of (\<lambda>k. [])) stub_libs ''s1'' None enrolled_world))"
proof -
  let ?m = "\<lparr>gmm = 0::nat, scaler = 0::nat, student_id = ''s1'',
               registration_date = ''2024-01-01 09:00:00''\<rparr>"
  let ?row = "Array 39 [replicate 39 (Fin (- 100) 0)]"
  have missing: "fst (verify_student stub_self (env_of (\<lambda>k. [Fin 0 0])) stub_libs ''s1'' None
      empty_world) = Inr False"
    using verify_student_failures_alike [where w = empty_world and self = stub_self
        and sid = "''s1''" and E = "env_of (\<lambda>k. [Fin 0 0])" and L = stub_libs
        and threshold = None]
    by (simp add: empty_world_s1)
  have silent: "extract_features stub_self stub_libs
      (record_audio stub_self (env_of (\<lambda>k. [])) (verification_temp_file ''s1'') enrolled_world)
      (verification_temp_file ''s1'') = None"
    by (simp add: stub_extract)
  have no_signal: "fst (verify_student stub_self (env_of (\<lambda>k. [])) stub_libs ''s1'' None
      enrolled_world) = Inr False"
    using verify_student_failures_alike [where w = enrolled_world and self = stub_self
        and sid = "''s1''" and E = "env_of (\<lambda>k. [])" and L = stub_libs
        and threshold = None and model = ?m]
    by (simp add: enrolled_world_s1 silent)
  have feats: "extract_features stub_self stub_libs
      (record_audio stub_self (env_of (\<lambda>k. [Fin (- 100) 0])) (verification_temp_file ''s1'')
         enrolled_world)
      (verification_temp_file ''s1'') = Some ?row"
    by (simp add: stub_extract)
  have tr: "transform stub_libs 0 ?row = Inr ?row" by (simp add: stub_libs_def)
  have sc: "gmm_score stub_libs 0 ?row = Inr (Fin (- 100) 0)"
    using stub_score [of "[Fin (- 100) 0]" 0] by simp
  have low: "fst (verify_student stub_self (env_of (\<lambda>k. [Fin (- 100) 0])) stub_libs ''s1'' None
      enrolled_world) = Inr False"
    using verify_student_failures_alike [where w = enrolled_world and self = stub_self
        and sid = "''s1''" and E = "env_of (\<lambda>k. [Fin (- 100) 0])" and L = stub_libs
        and threshold = None and model = ?m and f = ?row and normalized_features = ?row
        and score = "Fin (- 100) 0"]
    by (simp add: enrolled_world_s1 feats tr sc fails)
  have counter: "run_checks stub_self (env_of (\<lambda>k. [])) stub_libs ''s1'' [0] 0 enrolled_world =
      run_checks stub_self (env_of (\<lambda>k. [])) stub_libs ''s1'' [] 0
        (snd (verify_student stub_self (env_of (\<lambda>k. [])) stub_libs ''s1'' None enrolled_world))"
    using verify_student_failures_alike [where w = enrolled_world and self = stub_self
        and sid = "''s1''" and E = "env_of (\<lambda>k. [])" and L = stub_libs
        and i = 0 and rest = "[]" and passed_checks = 0] no_signal
    by simp
  from missing silent no_signal sc low counter show ?thesis
    by (simp add: empty_world_s1 fails)
qed

end
